theory Spec2Isabelle
  imports Complex_Main
begin

section \<open>The label document model (src/app/LabelModel.cpp)\<close>

text \<open>
  The model owns a list of pointers to label objects. Objects are addressed by a
  reference (the pointer value) and live in a store, so that a pointer occurring twice
  in a list, or a pointer that is not in the list at all, behaves as it does in the
  program. A C++ double is modelled as the real number it denotes; infinities and NaN
  are not modelled.
\<close>

type_synonym objref = nat

record LabelRegion =
  x1 :: real
  y1 :: real
  x2 :: real
  y2 :: real

subsection \<open>Double arithmetic\<close>

text \<open>
  The result of an arithmetic operation on doubles is the exact result rounded to the
  nearest double, ties to even (IEEE 754 binary64, the default rounding mode): the
  nearest multiple of \<open>2 ^ (e - 52)\<close>, where \<open>2 ^ e \<le> \<bar>x\<bar> < 2 ^ (e + 1)\<close>. The exponent
  is not bounded, so overflow to infinity and the subnormal range are not modelled.
  Comparisons and fabs are exact.
\<close>

definition rne :: "real \<Rightarrow> int" where
  "rne r =
     (let f = \<lfloor>r\<rfloor> in
      if r - of_int f < 1 / 2 then f
      else if r - of_int f > 1 / 2 then f + 1
      else if even f then f else f + 1)"

definition toDouble :: "real \<Rightarrow> real" where
  "toDouble x =
     (if x = 0 then 0
      else let e = \<lfloor>log 2 \<bar>x\<bar>\<rfloor>
           in of_int (rne (x * 2 powi (52 - e))) * 2 powi (e - 52))"

definition dadd :: "real \<Rightarrow> real \<Rightarrow> real" where
  "dadd a b = toDouble (a + b)"

definition dsub :: "real \<Rightarrow> real \<Rightarrow> real" where
  "dsub a b = toDouble (a - b)"

definition ddiv :: "real \<Rightarrow> real \<Rightarrow> real" where
  "ddiv a b = toDouble (a / b)"

subsection \<open>Objects and the model\<close>

text \<open>
  Modelled from the spec: the class LabelModelObject (LabelModelObject.h/.cpp are not
  among the sources). The spec gives an object a position (x, y), an extent (its bounding
  LabelRegion) and a selected flag; select/unselect toggle the flag, getExtent reads the
  extent, and setPositionRelative translates the object, position and extent alike, by
  a relative offset.
\<close>

record LabelModelObject =
  mX0 :: real
  mY0 :: real
  mExtent :: LabelRegion
  mSelectedFlag :: bool

definition select :: "LabelModelObject \<Rightarrow> LabelModelObject" where
  "select object = object\<lparr>mSelectedFlag := True\<rparr>"

definition unselect :: "LabelModelObject \<Rightarrow> LabelModelObject" where
  "unselect object = object\<lparr>mSelectedFlag := False\<rparr>"

definition isSelected :: "LabelModelObject \<Rightarrow> bool" where
  "isSelected object = mSelectedFlag object"

definition getExtent :: "LabelModelObject \<Rightarrow> LabelRegion" where
  "getExtent object = mExtent object"

definition setPositionRelative :: "real \<Rightarrow> real \<Rightarrow> LabelModelObject \<Rightarrow> LabelModelObject" where
  "setPositionRelative dx dy object =
     object\<lparr>mX0 := mX0 object + dx, mY0 := mY0 object + dy,
            mExtent := \<lparr>x1 = x1 (mExtent object) + dx, y1 = y1 (mExtent object) + dy,
                        x2 = x2 (mExtent object) + dx, y2 = y2 (mExtent object) + dy\<rparr>\<rparr>"

text \<open>
  The signals LabelModel.cpp emits, logged in emission order. The signals an object
  raises itself are not part of the log; the slots that relay them are
  \<open>onObjectChanged\<close> and \<open>onObjectMoved\<close> below.
\<close>

datatype signal =
    ObjectAdded objref
  | ObjectDeleted objref
  | ObjectChanged objref
  | ObjectMoved objref
  | ObjectToTop objref
  | ObjectToBottom objref
  | SelectionChanged
  | Changed

record LabelModel =
  mObjectList :: "objref list"
  mModified :: bool
  objects :: "objref \<Rightarrow> LabelModelObject"
  emitted :: "signal list"

text \<open>
  A value-returning C++ function whose control reaches the closing brace without a
  return statement delivers no value (undefined behaviour); the model makes that an
  error value. QList::first() requires a non-empty list.
\<close>

datatype error = NoReturnValue | EmptyList

definition emit :: "signal \<Rightarrow> LabelModel \<Rightarrow> LabelModel" where
  "emit s m = m\<lparr>emitted := emitted m @ [s]\<rparr>"

subsection \<open>Adding and deleting\<close>


definition onObjectChanged :: "objref \<Rightarrow> LabelModel \<Rightarrow> LabelModel" where
  "onObjectChanged sender m =
     emit Changed (emit (ObjectChanged sender) (m\<lparr>mModified := True\<rparr>))"

definition onObjectMoved :: "objref \<Rightarrow> LabelModel \<Rightarrow> LabelModel" where
  "onObjectMoved sender m =
     emit Changed (emit (ObjectMoved sender) (m\<lparr>mModified := True\<rparr>))"

text \<open>QList::removeOne removes the first occurrence only: \<^const>\<open>remove1\<close>.\<close>

definition deleteObject :: "objref \<Rightarrow> LabelModel \<Rightarrow> LabelModel" where
  "deleteObject object m =
     emit Changed (emit (ObjectDeleted object)
       (m\<lparr>objects := (objects m)(object := unselect (objects m object)),
          mObjectList := remove1 object (mObjectList m),
          mModified := True\<rparr>))"

subsection \<open>Selection\<close>

definition selectObject :: "objref \<Rightarrow> LabelModel \<Rightarrow> LabelModel" where
  "selectObject object m =
     emit SelectionChanged (m\<lparr>objects := (objects m)(object := select (objects m object))\<rparr>)"

definition unselectObject :: "objref \<Rightarrow> LabelModel \<Rightarrow> LabelModel" where
  "unselectObject object m =
     emit SelectionChanged (m\<lparr>objects := (objects m)(object := unselect (objects m object))\<rparr>)"

primrec selectAll_loop ::
  "objref list \<Rightarrow> (objref \<Rightarrow> LabelModelObject) \<Rightarrow> (objref \<Rightarrow> LabelModelObject)" where
  "selectAll_loop [] h = h"
| "selectAll_loop (object # rest) h = selectAll_loop rest (h(object := select (h object)))"

definition selectAll :: "LabelModel \<Rightarrow> LabelModel" where
  "selectAll m =
     emit SelectionChanged (m\<lparr>objects := selectAll_loop (mObjectList m) (objects m)\<rparr>)"

primrec unselectAll_loop ::
  "objref list \<Rightarrow> (objref \<Rightarrow> LabelModelObject) \<Rightarrow> (objref \<Rightarrow> LabelModelObject)" where
  "unselectAll_loop [] h = h"
| "unselectAll_loop (object # rest) h = unselectAll_loop rest (h(object := unselect (h object)))"

definition unselectAll :: "LabelModel \<Rightarrow> LabelModel" where
  "unselectAll m =
     emit SelectionChanged (m\<lparr>objects := unselectAll_loop (mObjectList m) (objects m)\<rparr>)"

primrec selectRegion_loop ::
  "real \<Rightarrow> real \<Rightarrow> real \<Rightarrow> real \<Rightarrow> objref list \<Rightarrow>
   (objref \<Rightarrow> LabelModelObject) \<Rightarrow> (objref \<Rightarrow> LabelModelObject)" where
  "selectRegion_loop rX1 rY1 rX2 rY2 [] h = h"
| "selectRegion_loop rX1 rY1 rX2 rY2 (object # rest) h =
     (let objectExtent = getExtent (h object) in
      if x1 objectExtent \<ge> rX1 \<and> x2 objectExtent \<le> rX2 \<and>
         y1 objectExtent \<ge> rY1 \<and> y2 objectExtent \<le> rY2
      then selectRegion_loop rX1 rY1 rX2 rY2 rest (h(object := select (h object)))
      else selectRegion_loop rX1 rY1 rX2 rY2 rest h)"

definition selectRegion :: "LabelRegion \<Rightarrow> LabelModel \<Rightarrow> LabelModel" where
  "selectRegion region m =
     (let rX1 = min (x1 region) (x2 region);
          rY1 = min (y1 region) (y2 region);
          rX2 = max (x1 region) (x2 region);
          rY2 = max (y1 region) (y2 region)
      in emit SelectionChanged
           (m\<lparr>objects := selectRegion_loop rX1 rY1 rX2 rY2 (mObjectList m) (objects m)\<rparr>))"

primrec isSelectionEmpty_loop :: "objref list \<Rightarrow> (objref \<Rightarrow> LabelModelObject) \<Rightarrow> bool" where
  "isSelectionEmpty_loop [] h = True"
| "isSelectionEmpty_loop (object # rest) h =
     (if isSelected (h object) then False else isSelectionEmpty_loop rest h)"

definition isSelectionEmpty :: "LabelModel \<Rightarrow> bool" where
  "isSelectionEmpty m = isSelectionEmpty_loop (mObjectList m) (objects m)"

primrec isSelectionAtomic_loop ::
  "objref list \<Rightarrow> (objref \<Rightarrow> LabelModelObject) \<Rightarrow> int \<Rightarrow> bool" where
  "isSelectionAtomic_loop [] h nSelected = (nSelected = 1)"
| "isSelectionAtomic_loop (object # rest) h nSelected =
     (if isSelected (h object)
      then (if nSelected + 1 > 1 then False
            else isSelectionAtomic_loop rest h (nSelected + 1))
      else isSelectionAtomic_loop rest h nSelected)"

definition isSelectionAtomic :: "LabelModel \<Rightarrow> bool" where
  "isSelectionAtomic m = isSelectionAtomic_loop (mObjectList m) (objects m) 0"

text \<open>
  The loop of getSelection appends every selected object to the local list
  selectedList, in list order.
\<close>

primrec getSelection_loop ::
  "objref list \<Rightarrow> (objref \<Rightarrow> LabelModelObject) \<Rightarrow> objref list \<Rightarrow> objref list" where
  "getSelection_loop [] h selectedList = selectedList"
| "getSelection_loop (object # rest) h selectedList =
     getSelection_loop rest h
       (if isSelected (h object) then selectedList @ [object] else selectedList)"

text \<open>
  The local variable selectedList of getSelection when its loop has ended: the list the
  function builds, and the one its callers are written to receive.
\<close>

definition builtSelection :: "LabelModel \<Rightarrow> objref list" where
  "builtSelection m = getSelection_loop (mObjectList m) (objects m) []"

text \<open>
  getSelection builds selectedList and then reaches its closing brace: the source has no
  return statement, so no path of the function returns the list.
\<close>

definition getSelection :: "LabelModel \<Rightarrow> error + objref list" where
  "getSelection m = (let selectedList = builtSelection m in Inl NoReturnValue)"

text \<open>
  getFirstSelectedObject returns from inside its loop at the first selected object; when
  the loop ends without one, the function ends without a return statement.
\<close>

primrec getFirstSelectedObject_loop ::
  "objref list \<Rightarrow> (objref \<Rightarrow> LabelModelObject) \<Rightarrow> error + objref" where
  "getFirstSelectedObject_loop [] h = Inl NoReturnValue"
| "getFirstSelectedObject_loop (object # rest) h =
     (if isSelected (h object) then Inr object else getFirstSelectedObject_loop rest h)"

definition getFirstSelectedObject :: "LabelModel \<Rightarrow> error + objref" where
  "getFirstSelectedObject m = getFirstSelectedObject_loop (mObjectList m) (objects m)"

subsection \<open>Stacking order\<close>

text \<open>
  The operations below start with \<open>selectedList = getSelection()\<close>. Each is modelled in
  two layers: the body of the function given the list the call delivers
  (\<open>..._with selectedList\<close>), and the function itself, which has a result only when
  the call to getSelection has one.
\<close>

primrec deleteSelection_loop :: "objref list \<Rightarrow> LabelModel \<Rightarrow> LabelModel" where
  "deleteSelection_loop [] m = m"
| "deleteSelection_loop (object # rest) m = deleteSelection_loop rest (deleteObject object m)"

definition deleteSelection_with :: "objref list \<Rightarrow> LabelModel \<Rightarrow> LabelModel" where
  "deleteSelection_with selectedList m =
     emit SelectionChanged (emit Changed
       ((deleteSelection_loop selectedList m)\<lparr>mModified := True\<rparr>))"

definition deleteSelection :: "LabelModel \<Rightarrow> error + LabelModel" where
  "deleteSelection m =
     (case getSelection m of
        Inl e \<Rightarrow> Inl e
      | Inr selectedList \<Rightarrow> Inr (deleteSelection_with selectedList m))"

primrec removeOne_loop :: "objref list \<Rightarrow> objref list \<Rightarrow> objref list" where
  "removeOne_loop [] l = l"
| "removeOne_loop (object # rest) l = removeOne_loop rest (remove1 object l)"

primrec push_back_loop :: "objref list \<Rightarrow> LabelModel \<Rightarrow> LabelModel" where
  "push_back_loop [] m = m"
| "push_back_loop (object # rest) m =
     push_back_loop rest
       (emit (ObjectToTop object) (m\<lparr>mObjectList := mObjectList m @ [object]\<rparr>))"

primrec push_front_loop :: "objref list \<Rightarrow> LabelModel \<Rightarrow> LabelModel" where
  "push_front_loop [] m = m"
| "push_front_loop (object # rest) m =
     push_front_loop rest
       (emit (ObjectToBottom object) (m\<lparr>mObjectList := object # mObjectList m\<rparr>))"

definition raiseSelectionToTop_with :: "objref list \<Rightarrow> LabelModel \<Rightarrow> LabelModel" where
  "raiseSelectionToTop_with selectedList m =
     emit Changed
       ((push_back_loop selectedList
          (m\<lparr>mObjectList := removeOne_loop selectedList (mObjectList m)\<rparr>))
        \<lparr>mModified := True\<rparr>)"

definition raiseSelectionToTop :: "LabelModel \<Rightarrow> error + LabelModel" where
  "raiseSelectionToTop m =
     (case getSelection m of
        Inl e \<Rightarrow> Inl e
      | Inr selectedList \<Rightarrow> Inr (raiseSelectionToTop_with selectedList m))"

definition lowerSelectionToBottom_with :: "objref list \<Rightarrow> LabelModel \<Rightarrow> LabelModel" where
  "lowerSelectionToBottom_with selectedList m =
     emit Changed
       ((push_front_loop selectedList
          (m\<lparr>mObjectList := removeOne_loop selectedList (mObjectList m)\<rparr>))
        \<lparr>mModified := True\<rparr>)"

definition lowerSelectionToBottom :: "LabelModel \<Rightarrow> error + LabelModel" where
  "lowerSelectionToBottom m =
     (case getSelection m of
        Inl e \<Rightarrow> Inl e
      | Inr selectedList \<Rightarrow> Inr (lowerSelectionToBottom_with selectedList m))"

subsection \<open>Alignment\<close>

primrec x1_min_loop :: "objref list \<Rightarrow> (objref \<Rightarrow> LabelModelObject) \<Rightarrow> real \<Rightarrow> real" where
  "x1_min_loop [] h x1_min = x1_min"
| "x1_min_loop (object # rest) h x1_min =
     (let r = getExtent (h object) in
      x1_min_loop rest h (if x1 r < x1_min then x1 r else x1_min))"

primrec alignLeft_loop ::
  "real \<Rightarrow> objref list \<Rightarrow> (objref \<Rightarrow> LabelModelObject) \<Rightarrow> (objref \<Rightarrow> LabelModelObject)" where
  "alignLeft_loop x1_min [] h = h"
| "alignLeft_loop x1_min (object # rest) h =
     (let r = getExtent (h object);
          dx = dsub x1_min (x1 r)
      in alignLeft_loop x1_min rest (h(object := setPositionRelative dx 0 (h object))))"

definition alignSelectionLeft_with :: "objref list \<Rightarrow> LabelModel \<Rightarrow> LabelModel" where
  "alignSelectionLeft_with selectedList m =
     (let x1_min = x1_min_loop selectedList (objects m) 7200
      in emit Changed
           (m\<lparr>objects := alignLeft_loop x1_min selectedList (objects m), mModified := True\<rparr>))"

definition alignSelectionLeft :: "LabelModel \<Rightarrow> error + LabelModel" where
  "alignSelectionLeft m =
     (if isSelectionEmpty m \<or> isSelectionAtomic m then Inr m
      else case getSelection m of
             Inl e \<Rightarrow> Inl e
           | Inr selectedList \<Rightarrow> Inr (alignSelectionLeft_with selectedList m))"

primrec x1_max_loop :: "objref list \<Rightarrow> (objref \<Rightarrow> LabelModelObject) \<Rightarrow> real \<Rightarrow> real" where
  "x1_max_loop [] h x1_max = x1_max"
| "x1_max_loop (object # rest) h x1_max =
     (let r = getExtent (h object) in
      x1_max_loop rest h (if x1 r > x1_max then x1 r else x1_max))"

primrec alignRight_loop ::
  "real \<Rightarrow> objref list \<Rightarrow> (objref \<Rightarrow> LabelModelObject) \<Rightarrow> (objref \<Rightarrow> LabelModelObject)" where
  "alignRight_loop x1_max [] h = h"
| "alignRight_loop x1_max (object # rest) h =
     (let r = getExtent (h object);
          dx = x1_max - x1 r
      in alignRight_loop x1_max rest (h(object := setPositionRelative dx 0 (h object))))"

definition alignSelectionRight_with :: "objref list \<Rightarrow> LabelModel \<Rightarrow> LabelModel" where
  "alignSelectionRight_with selectedList m =
     (let x1_max = x1_max_loop selectedList (objects m) (- 7200)
      in emit Changed
           (m\<lparr>objects := alignRight_loop x1_max selectedList (objects m), mModified := True\<rparr>))"

definition alignSelectionRight :: "LabelModel \<Rightarrow> error + LabelModel" where
  "alignSelectionRight m =
     (if isSelectionEmpty m \<or> isSelectionAtomic m then Inr m
      else case getSelection m of
             Inl e \<Rightarrow> Inl e
           | Inr selectedList \<Rightarrow> Inr (alignSelectionRight_with selectedList m))"

text \<open>
  alignSelectionHCenter: the first loop sums the horizontal centers and counts them, the
  second keeps the center that is strictly closer to the average than the best so far
  (starting from the value 7200), the third moves every object onto that center. The
  average is \<open>xsum / n\<close>; the guard of the function keeps \<open>n\<close> away from zero. Every
  sum, difference and quotient is a double operation.
\<close>

primrec xsum_loop ::
  "objref list \<Rightarrow> (objref \<Rightarrow> LabelModelObject) \<Rightarrow> real \<Rightarrow> int \<Rightarrow> real \<times> int" where
  "xsum_loop [] h xsum n = (xsum, n)"
| "xsum_loop (object # rest) h xsum n =
     (let r = getExtent (h object) in
      xsum_loop rest h (dadd xsum (ddiv (dadd (x1 r) (x2 r)) 2)) (n + 1))"

primrec xcenter_loop ::
  "real \<Rightarrow> objref list \<Rightarrow> (objref \<Rightarrow> LabelModelObject) \<Rightarrow> real \<Rightarrow> real \<Rightarrow> real" where
  "xcenter_loop xavg [] h dxmin xcenter = xcenter"
| "xcenter_loop xavg (object # rest) h dxmin xcenter =
     (let r = getExtent (h object);
          dx = \<bar>dsub xavg (ddiv (dadd (x1 r) (x2 r)) 2)\<bar>
      in if dx < dxmin
         then xcenter_loop xavg rest h dx (ddiv (dadd (x1 r) (x2 r)) 2)
         else xcenter_loop xavg rest h dxmin xcenter)"

primrec alignHCenter_loop ::
  "real \<Rightarrow> objref list \<Rightarrow> (objref \<Rightarrow> LabelModelObject) \<Rightarrow> (objref \<Rightarrow> LabelModelObject)" where
  "alignHCenter_loop xcenter [] h = h"
| "alignHCenter_loop xcenter (object # rest) h =
     (let r = getExtent (h object);
          dx = dsub xcenter (ddiv (dadd (x1 r) (x2 r)) 2)
      in alignHCenter_loop xcenter rest (h(object := setPositionRelative dx 0 (h object))))"

definition alignSelectionHCenter_with :: "objref list \<Rightarrow> LabelModel \<Rightarrow> LabelModel" where
  "alignSelectionHCenter_with selectedList m =
     (let (xsum, n) = xsum_loop selectedList (objects m) 0 0;
          xavg = ddiv xsum (real_of_int n);
          xcenter = xcenter_loop xavg selectedList (objects m) \<bar>dsub xavg 7200\<bar> 7200
      in emit Changed
           (m\<lparr>objects := alignHCenter_loop xcenter selectedList (objects m),
              mModified := True\<rparr>))"

definition alignSelectionHCenter :: "LabelModel \<Rightarrow> error + LabelModel" where
  "alignSelectionHCenter m =
     (if isSelectionEmpty m \<or> isSelectionAtomic m then Inr m
      else case getSelection m of
             Inl e \<Rightarrow> Inl e
           | Inr selectedList \<Rightarrow> Inr (alignSelectionHCenter_with selectedList m))"

section \<open>The template database (src/glabels/Db.cpp)\<close>

text \<open>
  Modelled from the spec: the classes Paper, Category, Vendor and Template (their headers
  are not among the sources). The lookups read only the accessors id(), name(), url(),
  brand() and part(), which the records keep as fields. A QString is a \<open>string\<close>; a null
  QString is also empty, so the test \<open>name.isNull() || name.isEmpty()\<close> is \<open>name = []\<close>.
  A pointer result is an option: NULL is \<open>None\<close>.
\<close>

record Paper =
  paperId :: string
  paperName :: string

record Category =
  categoryId :: string
  categoryName :: string

record Vendor =
  vendorName :: string
  vendorUrl :: string

record Template =
  templateBrand :: string
  templatePart :: string
  templateName :: string

record Db =
  mPapers :: "Paper list"
  mCategories :: "Category list"
  mVendors :: "Vendor list"
  mTemplates :: "Template list"
  mPaperNameOther :: string

definition emptyString :: string where
  "emptyString = []"

definition first :: "'a list \<Rightarrow> error + 'a" where
  "first l = (case l of [] \<Rightarrow> Inl EmptyList | x # _ \<Rightarrow> Inr x)"

text \<open>
  Each lookup loops over the registered entries and returns the first one that matches,
  or NULL after the loop: \<^const>\<open>find\<close>.
\<close>

definition lookupPaperFromName :: "Db \<Rightarrow> string \<Rightarrow> error + Paper option" where
  "lookupPaperFromName db name =
     (if name = [] then (case first (mPapers db) of Inl e \<Rightarrow> Inl e | Inr paper \<Rightarrow> Inr (Some paper))
      else Inr (find (\<lambda>paper. paperName paper = name) (mPapers db)))"

definition lookupPaperFromId :: "Db \<Rightarrow> string \<Rightarrow> error + Paper option" where
  "lookupPaperFromId db ident =
     (if ident = [] then (case first (mPapers db) of Inl e \<Rightarrow> Inl e | Inr paper \<Rightarrow> Inr (Some paper))
      else Inr (find (\<lambda>paper. paperId paper = ident) (mPapers db)))"

definition lookupPaperIdFromName :: "Db \<Rightarrow> string \<Rightarrow> error + string" where
  "lookupPaperIdFromName db name =
     (if name \<noteq> [] then
        (case lookupPaperFromName db name of
           Inl e \<Rightarrow> Inl e
         | Inr (Some paper) \<Rightarrow> Inr (paperId paper)
         | Inr None \<Rightarrow> Inr emptyString)
      else Inr emptyString)"

definition isPaperIdOther :: "string \<Rightarrow> bool" where
  "isPaperIdOther ident = (ident = ''Other'')"

definition lookupPaperNameFromId :: "Db \<Rightarrow> string \<Rightarrow> error + string" where
  "lookupPaperNameFromId db ident =
     (if ident \<noteq> [] then
        (if isPaperIdOther ident then Inr (mPaperNameOther db)
         else (case lookupPaperFromId db ident of
                 Inl e \<Rightarrow> Inl e
               | Inr (Some paper) \<Rightarrow> Inr (paperName paper)
               | Inr None \<Rightarrow> Inr emptyString))
      else Inr emptyString)"

definition lookupCategoryFromName :: "Db \<Rightarrow> string \<Rightarrow> error + Category option" where
  "lookupCategoryFromName db name =
     (if name = [] then
        (case first (mCategories db) of Inl e \<Rightarrow> Inl e | Inr category \<Rightarrow> Inr (Some category))
      else Inr (find (\<lambda>category. categoryName category = name) (mCategories db)))"

definition lookupCategoryFromId :: "Db \<Rightarrow> string \<Rightarrow> error + Category option" where
  "lookupCategoryFromId db ident =
     (if ident = [] then
        (case first (mCategories db) of Inl e \<Rightarrow> Inl e | Inr category \<Rightarrow> Inr (Some category))
      else Inr (find (\<lambda>category. categoryId category = ident) (mCategories db)))"

definition lookupCategoryIdFromName :: "Db \<Rightarrow> string \<Rightarrow> error + string" where
  "lookupCategoryIdFromName db name =
     (if name \<noteq> [] then
        (case lookupCategoryFromName db name of
           Inl e \<Rightarrow> Inl e
         | Inr (Some category) \<Rightarrow> Inr (categoryId category)
         | Inr None \<Rightarrow> Inr emptyString)
      else Inr emptyString)"

definition lookupCategoryNameFromId :: "Db \<Rightarrow> string \<Rightarrow> error + string" where
  "lookupCategoryNameFromId db ident =
     (if ident \<noteq> [] then
        (case lookupCategoryFromId db ident of
           Inl e \<Rightarrow> Inl e
         | Inr (Some category) \<Rightarrow> Inr (categoryName category)
         | Inr None \<Rightarrow> Inr emptyString)
      else Inr emptyString)"

definition lookupVendorFromName :: "Db \<Rightarrow> string \<Rightarrow> error + Vendor option" where
  "lookupVendorFromName db name =
     (if name = [] then
        (case first (mVendors db) of Inl e \<Rightarrow> Inl e | Inr vendor \<Rightarrow> Inr (Some vendor))
      else Inr (find (\<lambda>vendor. vendorName vendor = name) (mVendors db)))"

definition lookupVendorUrlFromName :: "Db \<Rightarrow> string \<Rightarrow> error + string" where
  "lookupVendorUrlFromName db name =
     (if name \<noteq> [] then
        (case lookupVendorFromName db name of
           Inl e \<Rightarrow> Inl e
         | Inr (Some vendor) \<Rightarrow> Inr (vendorUrl vendor)
         | Inr None \<Rightarrow> Inr emptyString)
      else Inr emptyString)"

definition lookupTemplateFromName :: "Db \<Rightarrow> string \<Rightarrow> error + Template option" where
  "lookupTemplateFromName db name =
     (if name = [] then
        (case first (mTemplates db) of Inl e \<Rightarrow> Inl e | Inr tmplate \<Rightarrow> Inr (Some tmplate))
      else Inr (find (\<lambda>tmplate. templateName tmplate = name) (mTemplates db)))"

definition lookupTemplateFromBrandPart :: "Db \<Rightarrow> string \<Rightarrow> string \<Rightarrow> error + Template option" where
  "lookupTemplateFromBrandPart db brand part =
     (if brand = [] \<or> part = [] then
        (case first (mTemplates db) of Inl e \<Rightarrow> Inl e | Inr tmplate \<Rightarrow> Inr (Some tmplate))
      else Inr (find (\<lambda>tmplate. templateBrand tmplate = brand \<and> templatePart tmplate = part)
                  (mTemplates db)))"

section \<open>Specification-side notions\<close>

text \<open>
  The region of selectRegion normalised by reordering its corners, and containment of an
  extent in a region on all four edges (inclusive), as the specification words it;
  \<open>overlaps\<close> says that two normalised boxes share a point, and \<open>points\<close> is the set
  of points a region covers.
\<close>

definition normalized :: "LabelRegion \<Rightarrow> LabelRegion" where
  "normalized region =
     \<lparr>x1 = min (x1 region) (x2 region), y1 = min (y1 region) (y2 region),
      x2 = max (x1 region) (x2 region), y2 = max (y1 region) (y2 region)\<rparr>"

definition containedIn :: "LabelRegion \<Rightarrow> LabelRegion \<Rightarrow> bool" where
  "containedIn extent region \<longleftrightarrow>
     x1 region \<le> x1 extent \<and> x2 extent \<le> x2 region \<and>
     y1 region \<le> y1 extent \<and> y2 extent \<le> y2 region"

definition overlaps :: "LabelRegion \<Rightarrow> LabelRegion \<Rightarrow> bool" where
  "overlaps extent region \<longleftrightarrow>
     x1 extent \<le> x2 region \<and> x1 region \<le> x2 extent \<and>
     y1 extent \<le> y2 region \<and> y1 region \<le> y2 extent"

definition points :: "LabelRegion \<Rightarrow> (real \<times> real) set" where
  "points r =
     {(x, y). min (x1 r) (x2 r) \<le> x \<and> x \<le> max (x1 r) (x2 r) \<and>
              min (y1 r) (y2 r) \<le> y \<and> y \<le> max (y1 r) (y2 r)}"

text \<open>
  What the specification says of a registry lookup that returns an entry: with a null or
  empty identifier the first entry of the registry's list, with an identifier that
  matches nothing NULL, with a matching identifier the first entry of the list that
  matches (every entry before it does not match). The lookups that return a string
  instead give the empty string for an empty identifier and for one that matches
  nothing, and the wanted attribute of a matching entry; \<open>special\<close> marks identifiers
  the lookup answers without consulting the entries.
\<close>

definition entryLookup ::
  "('a \<Rightarrow> string) \<Rightarrow> 'a list \<Rightarrow> (string \<Rightarrow> error + 'a option) \<Rightarrow> bool" where
  "entryLookup key entries lookup \<longleftrightarrow>
     (entries \<noteq> [] \<longrightarrow> lookup [] = Inr (Some (hd entries))) \<and>
     (\<forall>name. name \<noteq> [] \<and> (\<forall>e\<in>set entries. key e \<noteq> name) \<longrightarrow> lookup name = Inr None) \<and>
     (\<forall>name. name \<noteq> [] \<and> (\<exists>e\<in>set entries. key e = name) \<longrightarrow>
        (\<exists>pre e post. entries = pre @ e # post \<and> key e = name \<and>
           (\<forall>x\<in>set pre. key x \<noteq> name) \<and> lookup name = Inr (Some e)))"

definition stringLookup ::
  "('a \<Rightarrow> string) \<Rightarrow> ('a \<Rightarrow> string) \<Rightarrow> 'a list \<Rightarrow> (string \<Rightarrow> error + string) \<Rightarrow>
   (string \<Rightarrow> bool) \<Rightarrow> bool" where
  "stringLookup key attr entries lookup special \<longleftrightarrow>
     lookup [] = Inr [] \<and>
     (\<forall>name. name \<noteq> [] \<and> \<not> special name \<and> (\<forall>e\<in>set entries. key e \<noteq> name)
        \<longrightarrow> lookup name = Inr []) \<and>
     (\<forall>name. name \<noteq> [] \<and> \<not> special name \<and> (\<exists>e\<in>set entries. key e = name) \<longrightarrow>
        (\<exists>pre e post. entries = pre @ e # post \<and> key e = name \<and>
           (\<forall>x\<in>set pre. key x \<noteq> name) \<and> lookup name = Inr (attr e)))"

section \<open>Sample inputs\<close>

text \<open>
  \<open>box a b c d s\<close> is an object placed at (a, b) whose extent has the corners (a, b)
  and (c, d), selected when \<open>s\<close> holds.
\<close>

definition box :: "real \<Rightarrow> real \<Rightarrow> real \<Rightarrow> real \<Rightarrow> bool \<Rightarrow> LabelModelObject" where
  "box a b c d s =
     \<lparr>mX0 = a, mY0 = b, mExtent = \<lparr>x1 = a, y1 = b, x2 = c, y2 = d\<rparr>, mSelectedFlag = s\<rparr>"

definition sample_model :: LabelModel where
  "sample_model =
     \<lparr>mObjectList = [0, 1, 2], mModified = False,
      objects = (\<lambda>_. box 0 0 0 0 False)
        (0 := box 10 10 30 20 True, 1 := box 40 40 60 60 False, 2 := box 50 50 100 100 False),
      emitted = []\<rparr>"

definition sample_region :: LabelRegion where
  "sample_region = \<lparr>x1 = 70, y1 = 70, x2 = 35, y2 = 35\<rparr>"


definition far_model :: LabelModel where
  "far_model =
     \<lparr>mObjectList = [0, 1], mModified = False,
      objects = (\<lambda>_. box 0 0 0 0 False)
        (0 := box 8000 0 8100 10 True, 1 := box 9000 5 9100 15 True),
      emitted = []\<rparr>"

definition stack_model :: LabelModel where
  "stack_model =
     \<lparr>mObjectList = [0, 1, 2], mModified = False,
      objects = (\<lambda>_. box 0 0 0 0 False)
        (0 := box 0 0 10 10 True, 1 := box 20 5 50 15 True, 2 := box 70 70 80 80 False),
      emitted = []\<rparr>"

definition scenario_model :: LabelModel where
  "scenario_model =
     \<lparr>mObjectList = [0, 1, 2], mModified = False,
      objects = (\<lambda>_. box 0 0 0 0 False)
        (0 := box 40 40 60 60 True, 1 := box 140 40 160 60 True, 2 := box 80 40 100 60 True),
      emitted = []\<rparr>"

definition straddle_model :: LabelModel where
  "straddle_model =
     \<lparr>mObjectList = [0, 1], mModified = False,
      objects = (\<lambda>_. box 0 0 0 0 False)
        (0 := box 7090 0 7110 10 True, 1 := box 7290 0 7310 10 True),
      emitted = []\<rparr>"

text \<open>
  Two models whose coordinates are the doubles nearest to 0.1 and 0.7, and to 0.2 and 0.6.
\<close>

definition tenths_model :: LabelModel where
  "tenths_model =
     \<lparr>mObjectList = [0, 1], mModified = False,
      objects = (\<lambda>_. box 0 0 0 0 False)
        (0 := box (3602879701896397 / 36028797018963968) 0 1 10 True, 1 := box (3152519739159347 / 4503599627370496) 0 1 10 True),
      emitted = []\<rparr>"

definition tie_model :: LabelModel where
  "tie_model =
     \<lparr>mObjectList = [0, 1], mModified = False,
      objects = (\<lambda>_. box 0 0 0 0 False)
        (0 := box 0 0 (3602879701896397 / 18014398509481984) 10 True, 1 := box 0 0 (5404319552844595 / 9007199254740992) 10 True),
      emitted = []\<rparr>"



text \<open>A registry in which two papers share the name Custom.\<close>

definition example_db :: Db where
  "example_db =
     \<lparr>mPapers = [\<lparr>paperId = ''A4'', paperName = ''A4 paper''\<rparr>,
                 \<lparr>paperId = ''US-Letter'', paperName = ''US Letter''\<rparr>,
                 \<lparr>paperId = ''c1'', paperName = ''Custom''\<rparr>,
                 \<lparr>paperId = ''c2'', paperName = ''Custom''\<rparr>],
      mCategories = [\<lparr>categoryId = ''label'', categoryName = ''Labels''\<rparr>],
      mVendors = [\<lparr>vendorName = ''Avery'', vendorUrl = ''http://www.avery.com''\<rparr>],
      mTemplates = [\<lparr>templateBrand = ''Avery'', templatePart = ''5160'',
                     templateName = ''Avery 5160''\<rparr>],
      mPaperNameOther = ''Other''\<rparr>"

section \<open>Double arithmetic on exactly representable values\<close>

text \<open>
  \<open>toDouble_eval\<close> computes a rounding once the binade of the argument is known; an
  integer below \<open>2 ^ 53\<close> in absolute value is a double and rounds to itself.
\<close>

lemma rne_of_int: "rne (of_int m) = m"
  by (simp add: rne_def)

lemma floor_log2_eq:
  assumes "x \<noteq> 0" "2 powi k \<le> \<bar>x\<bar>" "\<bar>x\<bar> < 2 powi (k + 1)"
  shows "\<lfloor>log 2 \<bar>x\<bar>\<rfloor> = k"
proof -
  have "(2::real) powr k = 2 powi k" "(2::real) powr (k + 1) = 2 powi (k + 1)"
    by (simp_all add: powr_real_of_int' del: of_int_add)
  then show ?thesis
    using assms floor_log_eq_powr_iff [of "\<bar>x\<bar>" 2 k] by simp
qed

lemma toDouble_eval:
  assumes "x \<noteq> 0" "2 powi k \<le> \<bar>x\<bar>" "\<bar>x\<bar> < 2 powi (k + 1)"
  shows "toDouble x = of_int (rne (x * 2 powi (52 - k))) * 2 powi (k - 52)"
  using assms by (simp add: toDouble_def floor_log2_eq)

lemma toDouble_of_int:
  assumes "\<bar>n\<bar> < 2 ^ 53"
  shows "toDouble (of_int n) = of_int n"
proof (cases "n = 0")
  case True
  then show ?thesis by (simp add: toDouble_def)
next
  case False
  define x :: real where "x = of_int n"
  define e where "e = \<lfloor>log 2 \<bar>x\<bar>\<rfloor>"
  have x1: "1 \<le> \<bar>x\<bar>" using False by (simp add: x_def)
  have x2: "\<bar>x\<bar> < 2 ^ 53"
  proof -
    have "real_of_int \<bar>n\<bar> < real_of_int (2 ^ 53)" using assms by (simp only: of_int_less_iff)
    then show ?thesis by (simp add: x_def)
  qed
  have e0: "0 \<le> e" unfolding e_def using x1 by simp
  have "log 2 \<bar>x\<bar> < 53"
    using x1 x2 by (simp add: log_less_iff powr_realpow [of 2 53, simplified])
  then have e52: "e \<le> 52" unfolding e_def by linarith
  define j where "j = nat (52 - e)"
  have p1: "(2::real) powi (52 - e) = 2 ^ j"
    using e52 by (simp add: j_def power_int_def)
  have p2: "(2::real) powi (e - 52) = 1 / 2 ^ j"
    using e52 by (cases "e = 52") (simp_all add: j_def power_int_def field_simps)
  have "x * 2 ^ j = of_int (n * 2 ^ j)" by (simp add: x_def)
  then have r: "rne (x * 2 ^ j) = n * 2 ^ j" by (simp only: rne_of_int)
  have "toDouble x = of_int (rne (x * 2 powi (52 - e))) * 2 powi (e - 52)"
    using False by (simp add: toDouble_def x_def e_def Let_def)
  also have "\<dots> = of_int (n * 2 ^ j) / 2 ^ j"
    by (simp add: p1 p2 r)
  also have "\<dots> = x" by (simp add: x_def)
  finally show ?thesis by (simp add: x_def)
qed

lemma toDouble_numeral:
  "(numeral k :: int) < 9007199254740992 \<Longrightarrow> toDouble (numeral k) = numeral k"
  using toDouble_of_int [of "numeral k"] by simp

lemma toDouble_neg_numeral:
  "(numeral k :: int) < 9007199254740992 \<Longrightarrow> toDouble (- numeral k) = - numeral k"
  using toDouble_of_int [of "- numeral k"] by simp

lemma toDouble_0: "toDouble 0 = 0"
  by (simp add: toDouble_def)

lemma toDouble_1: "toDouble 1 = 1"
  using toDouble_of_int [of 1] by simp

lemmas double_exact =
  dadd_def dsub_def ddiv_def toDouble_numeral toDouble_neg_numeral toDouble_0 toDouble_1

section \<open>The loops in closed form\<close>

lemma getSelection_loop_filter:
  "getSelection_loop ps h acc = acc @ filter (\<lambda>p. isSelected (h p)) ps"
  by (induction ps arbitrary: acc) simp_all

lemma builtSelection_filter:
  "builtSelection m = filter (\<lambda>p. isSelected (objects m p)) (mObjectList m)"
  by (simp add: builtSelection_def getSelection_loop_filter)

lemma getFirstSelectedObject_loop_filter:
  "getFirstSelectedObject_loop ps h =
     (case filter (\<lambda>p. isSelected (h p)) ps of [] \<Rightarrow> Inl NoReturnValue | p # _ \<Rightarrow> Inr p)"
  by (induction ps) simp_all

lemma selectAll_loop_apply:
  "selectAll_loop ps h q = (if q \<in> set ps then select (h q) else h q)"
  by (induction ps arbitrary: h) (auto simp: select_def)

lemma unselectAll_loop_apply:
  "unselectAll_loop ps h q = (if q \<in> set ps then unselect (h q) else h q)"
  by (induction ps arbitrary: h) (auto simp: unselect_def)

lemma selectRegion_loop_apply:
  "selectRegion_loop a b c d ps h q =
     (if q \<in> set ps \<and> containedIn (getExtent (h q)) \<lparr>x1 = a, y1 = b, x2 = c, y2 = d\<rparr>
      then select (h q) else h q)"
  by (induction ps arbitrary: h) (auto simp: select_def containedIn_def getExtent_def Let_def)

lemma objects_selectRegion:
  "objects (selectRegion region m) p =
     (if p \<in> set (mObjectList m) \<and> containedIn (getExtent (objects m p)) (normalized region)
      then select (objects m p) else objects m p)"
  by (simp add: selectRegion_def emit_def selectRegion_loop_apply normalized_def)

lemma containedIn_points:
  assumes "x1 e \<le> x2 e" and "y1 e \<le> y2 e"
  shows "containedIn e (normalized r) \<longleftrightarrow> points e \<subseteq> points r"
proof
  assume "containedIn e (normalized r)"
  then show "points e \<subseteq> points r"
    using assms by (auto simp: containedIn_def normalized_def points_def)
next
  assume sub: "points e \<subseteq> points r"
  have "(x1 e, y1 e) \<in> points e" and "(x2 e, y2 e) \<in> points e"
    using assms by (simp_all add: points_def)
  with sub have "(x1 e, y1 e) \<in> points r" and "(x2 e, y2 e) \<in> points r"
    by blast+
  then show "containedIn e (normalized r)"
    by (simp add: containedIn_def normalized_def points_def)
qed

lemma isSelectionEmpty_loop_filter:
  "isSelectionEmpty_loop ps h \<longleftrightarrow> filter (\<lambda>p. isSelected (h p)) ps = []"
  by (induction ps) simp_all

lemma isSelectionAtomic_loop_count:
  "0 \<le> n \<Longrightarrow> n \<le> 1 \<Longrightarrow>
   isSelectionAtomic_loop ps h n \<longleftrightarrow> n + int (length (filter (\<lambda>p. isSelected (h p)) ps)) = 1"
  by (induction ps arbitrary: n) auto

lemma isSelectionEmpty_iff: "isSelectionEmpty m \<longleftrightarrow> builtSelection m = []"
  by (simp add: isSelectionEmpty_def isSelectionEmpty_loop_filter builtSelection_filter)

lemma isSelectionAtomic_iff: "isSelectionAtomic m \<longleftrightarrow> length (builtSelection m) = 1"
  using isSelectionAtomic_loop_count [of 0 "mObjectList m" "objects m"]
  by (simp add: isSelectionAtomic_def builtSelection_filter)

lemma Min_insert_min:
  fixes a acc :: real
  assumes "finite S"
  shows "Min (insert (min a acc) S) = Min (insert acc (insert a S))"
proof (cases "S = {}")
  case True
  then show ?thesis by (simp add: min.commute)
next
  case False
  with assms show ?thesis by (simp add: min.assoc min.left_commute min.commute)
qed

lemma x1_min_loop_Min:
  "x1_min_loop ps h acc = Min (insert acc ((\<lambda>p. x1 (getExtent (h p))) ` set ps))"
proof (induction ps arbitrary: acc)
  case Nil
  then show ?case by simp
next
  case (Cons p ps)
  have "x1_min_loop (p # ps) h acc = x1_min_loop ps h (min (x1 (getExtent (h p))) acc)"
    by (simp add: Let_def min_def)
  also have "\<dots> = Min (insert (min (x1 (getExtent (h p))) acc) ((\<lambda>p. x1 (getExtent (h p))) ` set ps))"
    by (rule Cons.IH)
  also have "\<dots> = Min (insert acc (insert (x1 (getExtent (h p))) ((\<lambda>p. x1 (getExtent (h p))) ` set ps)))"
    by (rule Min_insert_min) simp
  finally show ?case by simp
qed





lemma removeOne_loop_distinct:
  "distinct l \<Longrightarrow> removeOne_loop sel l = filter (\<lambda>x. x \<notin> set sel) l"
proof (induction sel arbitrary: l)
  case Nil
  then show ?case by simp
next
  case (Cons a sel)
  have r: "remove1 a l = filter (\<lambda>x. x \<noteq> a) l"
    using Cons.prems by (simp add: distinct_remove1_removeAll removeAll_filter_not_eq) metis
  have "removeOne_loop (a # sel) l = filter (\<lambda>x. x \<notin> set sel) (remove1 a l)"
    using Cons.IH [of "remove1 a l"] Cons.prems by simp
  also have "\<dots> = filter (\<lambda>x. x \<notin> set (a # sel)) l"
    unfolding r by (simp add: conj_commute)
  finally show ?case .
qed

lemma mObjectList_push_back_loop:
  "mObjectList (push_back_loop sel m) = mObjectList m @ sel"
  by (induction sel arbitrary: m) (simp_all add: emit_def)

lemma mObjectList_push_front_loop:
  "mObjectList (push_front_loop sel m) = rev sel @ mObjectList m"
  by (induction sel arbitrary: m) (simp_all add: emit_def)

lemma filter_not_in_filter:
  "filter (\<lambda>x. x \<notin> set (filter P l)) l = filter (\<lambda>x. \<not> P x) l"
  by (rule filter_cong) auto


text \<open>
  As written, every operation that starts with \<open>selectedList = getSelection()\<close> has no
  defined result once it makes that call, because getSelection returns nothing. What
  the bodies of these operations do is therefore stated for the bodies run on the list
  that getSelection builds.
\<close>

lemma deleteSelection_as_written: "deleteSelection m = Inl NoReturnValue"
  by (simp add: deleteSelection_def getSelection_def)

lemma raiseSelectionToTop_as_written: "raiseSelectionToTop m = Inl NoReturnValue"
  by (simp add: raiseSelectionToTop_def getSelection_def)

lemma lowerSelectionToBottom_as_written: "lowerSelectionToBottom m = Inl NoReturnValue"
  by (simp add: lowerSelectionToBottom_def getSelection_def)

lemma alignSelectionLeft_as_written:
  "alignSelectionLeft m =
     (if isSelectionEmpty m \<or> isSelectionAtomic m then Inr m else Inl NoReturnValue)"
  by (simp add: alignSelectionLeft_def getSelection_def)

lemma alignSelectionRight_as_written:
  "alignSelectionRight m =
     (if isSelectionEmpty m \<or> isSelectionAtomic m then Inr m else Inl NoReturnValue)"
  by (simp add: alignSelectionRight_def getSelection_def)

lemma alignSelectionHCenter_as_written:
  "alignSelectionHCenter m =
     (if isSelectionEmpty m \<or> isSelectionAtomic m then Inr m else Inl NoReturnValue)"
  by (simp add: alignSelectionHCenter_def getSelection_def)

subsection \<open>Rounding in the alignment bodies\<close>

text \<open>
  The subtraction \<open>x1_min - r.x1()\<close> of alignSelectionLeft rounds: with left edges at
  the doubles nearest to 0.1 and 0.7, the second object is moved by the double nearest
  to -0.6 and ends with its left edge at 0.09999999999999998, not at the left-most edge.
\<close>

lemma alignSelectionLeft_rounds:
  "builtSelection tenths_model = [0, 1] \<and>
   x1 (getExtent (objects tenths_model 0)) = (3602879701896397 / 36028797018963968) \<and>
   x1 (getExtent (objects tenths_model 1)) = (3152519739159347 / 4503599627370496) \<and>
   x1 (getExtent (objects (alignSelectionLeft_with [0, 1] tenths_model) 0)) = (3602879701896397 / 36028797018963968) \<and>
   x1 (getExtent (objects (alignSelectionLeft_with [0, 1] tenths_model) 1)) = (900719925474099 / 9007199254740992)"
proof -
  have l0: "dsub (3602879701896397 / 36028797018963968) (3602879701896397 / 36028797018963968) = 0"
    by (simp add: dsub_def toDouble_0)
  have l1: "dsub (3602879701896397 / 36028797018963968) (3152519739159347 / 4503599627370496) = - (5404319552844595 / 9007199254740992)"
  proof -
    have "toDouble ((3602879701896397 / 36028797018963968) - (3152519739159347 / 4503599627370496)) =
        of_int (rne (((3602879701896397 / 36028797018963968) - (3152519739159347 / 4503599627370496)) * 2 powi (52 - (- 1)))) * 2 powi ((- 1) - 52)"
      by (rule toDouble_eval) (simp_all add: power_int_def power_divide)
    also have "\<dots> = - (5404319552844595 / 9007199254740992)"
      by (simp add: rne_def power_int_def power_divide)
    finally show ?thesis by (simp add: dsub_def)
  qed
  show ?thesis
    by (simp add: tenths_model_def builtSelection_filter isSelected_def box_def
        alignSelectionLeft_with_def emit_def Let_def getExtent_def setPositionRelative_def
        l0 l1)
qed

text \<open>
  The distances to the average in alignSelectionHCenter are rounded differences: with
  extents from 0 to the doubles nearest to 0.2 and 0.6, the centers are at equal
  distance from the computed average in exact arithmetic, but the second distance is
  computed as 0.09999999999999998 and the first as 0.1, so the second object is the
  anchor and the first one is moved.
\<close>

lemma alignSelectionHCenter_rounds:
  "builtSelection tie_model = [0, 1] \<and>
   x2 (getExtent (objects tie_model 0)) = (3602879701896397 / 18014398509481984) \<and>
   x2 (getExtent (objects tie_model 1)) = (5404319552844595 / 9007199254740992) \<and>
   getExtent (objects (alignSelectionHCenter_with [0, 1] tie_model) 0) =
     \<lparr>x1 = (7205759403792793 / 36028797018963968), y1 = 0, x2 = (14411518807585587 / 36028797018963968), y2 = 10\<rparr> \<and>
   getExtent (objects (alignSelectionHCenter_with [0, 1] tie_model) 1) =
     \<lparr>x1 = 0, y1 = 0, x2 = (5404319552844595 / 9007199254740992), y2 = 10\<rparr>"
proof -
  have a0: "dadd 0 (3602879701896397 / 18014398509481984) = (3602879701896397 / 18014398509481984)"
  proof -
    have "toDouble (0 + (3602879701896397 / 18014398509481984)) =
        of_int (rne ((0 + (3602879701896397 / 18014398509481984)) * 2 powi (52 - (- 3)))) * 2 powi ((- 3) - 52)"
      by (rule toDouble_eval) (simp_all add: power_int_def power_divide)
    also have "\<dots> = (3602879701896397 / 18014398509481984)"
      by (simp add: rne_def power_int_def power_divide)
    finally show ?thesis by (simp add: dadd_def)
  qed
  have c0: "ddiv (3602879701896397 / 18014398509481984) 2 = (3602879701896397 / 36028797018963968)"
  proof -
    have "toDouble ((3602879701896397 / 18014398509481984) / 2) =
        of_int (rne (((3602879701896397 / 18014398509481984) / 2) * 2 powi (52 - (- 4)))) * 2 powi ((- 4) - 52)"
      by (rule toDouble_eval) (simp_all add: power_int_def power_divide)
    also have "\<dots> = (3602879701896397 / 36028797018963968)"
      by (simp add: rne_def power_int_def power_divide)
    finally show ?thesis by (simp add: ddiv_def)
  qed
  have a1: "dadd 0 (5404319552844595 / 9007199254740992) = (5404319552844595 / 9007199254740992)"
  proof -
    have "toDouble (0 + (5404319552844595 / 9007199254740992)) =
        of_int (rne ((0 + (5404319552844595 / 9007199254740992)) * 2 powi (52 - (- 1)))) * 2 powi ((- 1) - 52)"
      by (rule toDouble_eval) (simp_all add: power_int_def power_divide)
    also have "\<dots> = (5404319552844595 / 9007199254740992)"
      by (simp add: rne_def power_int_def power_divide)
    finally show ?thesis by (simp add: dadd_def)
  qed
  have c1: "ddiv (5404319552844595 / 9007199254740992) 2 = (5404319552844595 / 18014398509481984)"
  proof -
    have "toDouble ((5404319552844595 / 9007199254740992) / 2) =
        of_int (rne (((5404319552844595 / 9007199254740992) / 2) * 2 powi (52 - (- 2)))) * 2 powi ((- 2) - 52)"
      by (rule toDouble_eval) (simp_all add: power_int_def power_divide)
    also have "\<dots> = (5404319552844595 / 18014398509481984)"
      by (simp add: rne_def power_int_def power_divide)
    finally show ?thesis by (simp add: ddiv_def)
  qed
  have s0: "dadd 0 (3602879701896397 / 36028797018963968) = (3602879701896397 / 36028797018963968)"
  proof -
    have "toDouble (0 + (3602879701896397 / 36028797018963968)) =
        of_int (rne ((0 + (3602879701896397 / 36028797018963968)) * 2 powi (52 - (- 4)))) * 2 powi ((- 4) - 52)"
      by (rule toDouble_eval) (simp_all add: power_int_def power_divide)
    also have "\<dots> = (3602879701896397 / 36028797018963968)"
      by (simp add: rne_def power_int_def power_divide)
    finally show ?thesis by (simp add: dadd_def)
  qed
  have s1: "dadd (3602879701896397 / 36028797018963968) (5404319552844595 / 18014398509481984) = (3602879701896397 / 9007199254740992)"
  proof -
    have "toDouble ((3602879701896397 / 36028797018963968) + (5404319552844595 / 18014398509481984)) =
        of_int (rne (((3602879701896397 / 36028797018963968) + (5404319552844595 / 18014398509481984)) * 2 powi (52 - (- 2)))) * 2 powi ((- 2) - 52)"
      by (rule toDouble_eval) (simp_all add: power_int_def power_divide)
    also have "\<dots> = (3602879701896397 / 9007199254740992)"
      by (simp add: rne_def power_int_def power_divide)
    finally show ?thesis by (simp add: dadd_def)
  qed
  have av: "ddiv (3602879701896397 / 9007199254740992) 2 = (3602879701896397 / 18014398509481984)"
  proof -
    have "toDouble ((3602879701896397 / 9007199254740992) / 2) =
        of_int (rne (((3602879701896397 / 9007199254740992) / 2) * 2 powi (52 - (- 3)))) * 2 powi ((- 3) - 52)"
      by (rule toDouble_eval) (simp_all add: power_int_def power_divide)
    also have "\<dots> = (3602879701896397 / 18014398509481984)"
      by (simp add: rne_def power_int_def power_divide)
    finally show ?thesis by (simp add: ddiv_def)
  qed
  have dm: "dsub (3602879701896397 / 18014398509481984) 7200 = - (7916263817661645 / 1099511627776)"
  proof -
    have "toDouble ((3602879701896397 / 18014398509481984) - 7200) =
        of_int (rne (((3602879701896397 / 18014398509481984) - 7200) * 2 powi (52 - 12))) * 2 powi (12 - 52)"
      by (rule toDouble_eval) (simp_all add: power_int_def power_divide)
    also have "\<dots> = - (7916263817661645 / 1099511627776)"
      by (simp add: rne_def power_int_def power_divide)
    finally show ?thesis by (simp add: dsub_def)
  qed
  have e0: "dsub (3602879701896397 / 18014398509481984) (3602879701896397 / 36028797018963968) = (3602879701896397 / 36028797018963968)"
  proof -
    have "toDouble ((3602879701896397 / 18014398509481984) - (3602879701896397 / 36028797018963968)) =
        of_int (rne (((3602879701896397 / 18014398509481984) - (3602879701896397 / 36028797018963968)) * 2 powi (52 - (- 4)))) * 2 powi ((- 4) - 52)"
      by (rule toDouble_eval) (simp_all add: power_int_def power_divide)
    also have "\<dots> = (3602879701896397 / 36028797018963968)"
      by (simp add: rne_def power_int_def power_divide)
    finally show ?thesis by (simp add: dsub_def)
  qed
  have e1: "dsub (3602879701896397 / 18014398509481984) (5404319552844595 / 18014398509481984) = - (900719925474099 / 9007199254740992)"
  proof -
    have "toDouble ((3602879701896397 / 18014398509481984) - (5404319552844595 / 18014398509481984)) =
        of_int (rne (((3602879701896397 / 18014398509481984) - (5404319552844595 / 18014398509481984)) * 2 powi (52 - (- 4)))) * 2 powi ((- 4) - 52)"
      by (rule toDouble_eval) (simp_all add: power_int_def power_divide)
    also have "\<dots> = - (900719925474099 / 9007199254740992)"
      by (simp add: rne_def power_int_def power_divide)
    finally show ?thesis by (simp add: dsub_def)
  qed
  have m0: "dsub (5404319552844595 / 18014398509481984) (3602879701896397 / 36028797018963968) = (7205759403792793 / 36028797018963968)"
  proof -
    have "toDouble ((5404319552844595 / 18014398509481984) - (3602879701896397 / 36028797018963968)) =
        of_int (rne (((5404319552844595 / 18014398509481984) - (3602879701896397 / 36028797018963968)) * 2 powi (52 - (- 3)))) * 2 powi ((- 3) - 52)"
      by (rule toDouble_eval) (simp_all add: power_int_def power_divide)
    also have "\<dots> = (7205759403792793 / 36028797018963968)"
      by (simp add: rne_def power_int_def power_divide)
    finally show ?thesis by (simp add: dsub_def)
  qed
  have m1: "dsub (5404319552844595 / 18014398509481984) (5404319552844595 / 18014398509481984) = 0"
    by (simp add: dsub_def toDouble_0)
  show ?thesis
    by (simp add: tie_model_def builtSelection_filter isSelected_def box_def
        alignSelectionHCenter_with_def emit_def Let_def getExtent_def setPositionRelative_def
        a0 c0 a1 c1 s0 s1 av dm e0 e1 m0 m1)
qed

text \<open>
  The scenario of the specification: three selected objects with the centers (50, 50),
  (150, 50) and (90, 50). The average 290/3 is rounded, the object at 90 is the closest
  one, and the body of alignSelectionHCenter leaves all three objects with the
  horizontal extent 80..100, center 90, and the vertical extent unchanged.
\<close>

lemma alignSelectionHCenter_scenario:
  "builtSelection scenario_model = [0, 1, 2] \<and>
   getExtent (objects (alignSelectionHCenter_with [0, 1, 2] scenario_model) 0) =
     \<lparr>x1 = 80, y1 = 40, x2 = 100, y2 = 60\<rparr> \<and>
   getExtent (objects (alignSelectionHCenter_with [0, 1, 2] scenario_model) 1) =
     \<lparr>x1 = 80, y1 = 40, x2 = 100, y2 = 60\<rparr> \<and>
   getExtent (objects (alignSelectionHCenter_with [0, 1, 2] scenario_model) 2) =
     \<lparr>x1 = 80, y1 = 40, x2 = 100, y2 = 60\<rparr>"
proof -
  define A :: real where "A = ddiv 290 3"
  have A: "A = 6802311937174187 / 70368744177664"
  proof -
    have "toDouble (290 / 3) = of_int (rne ((290 / 3) * 2 powi (52 - 6))) * 2 powi (6 - 52)"
      by (rule toDouble_eval) (simp_all add: power_int_def power_divide)
    also have "\<dots> = 6802311937174187 / 70368744177664"
      by (simp add: rne_def power_int_def power_divide)
    finally show ?thesis by (simp add: A_def ddiv_def)
  qed
  have d7200: "dsub A 7200 = - 7810197595968853 / 1099511627776"
  proof -
    have "toDouble (A - 7200) =
        of_int (rne ((A - 7200) * 2 powi (52 - 12))) * 2 powi (12 - 52)"
      by (rule toDouble_eval) (simp_all add: A power_int_def power_divide)
    also have "\<dots> = - 7810197595968853 / 1099511627776"
      by (simp add: A rne_def power_int_def power_divide)
    finally show ?thesis by (simp add: dsub_def)
  qed
  have d50: "dsub A 50 = 3283874728290987 / 70368744177664"
  proof -
    have "toDouble (A - 50) = of_int (rne ((A - 50) * 2 powi (52 - 5))) * 2 powi (5 - 52)"
      by (rule toDouble_eval) (simp_all add: A power_int_def power_divide)
    also have "\<dots> = 3283874728290987 / 70368744177664"
      by (simp add: A rne_def power_int_def power_divide)
    finally show ?thesis by (simp add: dsub_def)
  qed
  have d150: "dsub A 150 = - 3752999689475413 / 70368744177664"
  proof -
    have "toDouble (A - 150) = of_int (rne ((A - 150) * 2 powi (52 - 5))) * 2 powi (5 - 52)"
      by (rule toDouble_eval) (simp_all add: A power_int_def power_divide)
    also have "\<dots> = - 3752999689475413 / 70368744177664"
      by (simp add: A rne_def power_int_def power_divide)
    finally show ?thesis by (simp add: dsub_def)
  qed
  have d90: "dsub A 90 = 469124961184427 / 70368744177664"
  proof -
    have "toDouble (A - 90) = of_int (rne ((A - 90) * 2 powi (52 - 2))) * 2 powi (2 - 52)"
      by (rule toDouble_eval) (simp_all add: A power_int_def power_divide)
    also have "\<dots> = 469124961184427 / 70368744177664"
      by (simp add: A rne_def power_int_def power_divide)
    finally show ?thesis by (simp add: dsub_def)
  qed
  have xs: "xsum_loop [0, 1, 2] (objects scenario_model) 0 0 = (290, 3)"
    by (simp add: scenario_model_def box_def getExtent_def Let_def double_exact)
  have xc: "xcenter_loop A [0, 1, 2] (objects scenario_model) \<bar>dsub A 7200\<bar> 7200 = 90"
    by (simp add: scenario_model_def box_def getExtent_def Let_def dadd_def ddiv_def
        toDouble_numeral d7200 d50 d150 d90)
  have al: "getExtent (alignHCenter_loop 90 [0, 1, 2] (objects scenario_model) 0) =
       \<lparr>x1 = 80, y1 = 40, x2 = 100, y2 = 60\<rparr>"
      "getExtent (alignHCenter_loop 90 [0, 1, 2] (objects scenario_model) 1) =
       \<lparr>x1 = 80, y1 = 40, x2 = 100, y2 = 60\<rparr>"
      "getExtent (alignHCenter_loop 90 [0, 1, 2] (objects scenario_model) 2) =
       \<lparr>x1 = 80, y1 = 40, x2 = 100, y2 = 60\<rparr>"
    by (simp_all add: scenario_model_def box_def getExtent_def Let_def setPositionRelative_def
        double_exact)
  have sel: "builtSelection scenario_model = [0, 1, 2]"
    by (simp add: scenario_model_def builtSelection_filter isSelected_def box_def)
  have obj: "objects (alignSelectionHCenter_with [0, 1, 2] scenario_model) =
      alignHCenter_loop 90 [0, 1, 2] (objects scenario_model)"
  proof -
    have "alignSelectionHCenter_with [0, 1, 2] scenario_model =
        emit Changed
          (scenario_model\<lparr>objects := alignHCenter_loop 90 [0, 1, 2] (objects scenario_model),
             mModified := True\<rparr>)"
      by (simp only: alignSelectionHCenter_with_def xs Let_def prod.case of_int_numeral
          A_def [symmetric] xc)
    then show ?thesis by (simp add: emit_def del: alignHCenter_loop.simps)
  qed
  show ?thesis unfolding obj by (intro conjI sel al)
qed

text \<open>
  alignRight_loop keeps the subtraction \<open>x1_max - r.x1()\<close> exact. In the run on
  \<open>edges_model\<close> used below the two subtractions are 20 - 0 and 20 - 20, which a double
  subtraction computes exactly too.
\<close>

lemma alignSelectionRight_example_exact:
  "dsub 20 0 = 20 - 0 \<and> dsub 20 20 = 20 - 20"
  by (simp add: double_exact)

subsection \<open>The registry lookups\<close>

lemma find_no_match: "(\<forall>e\<in>set xs. \<not> P e) \<Longrightarrow> find P xs = None"
  by (induction xs) simp_all

lemma find_first_match:
  "\<exists>e\<in>set xs. P e \<Longrightarrow>
   \<exists>pre e post. xs = pre @ e # post \<and> P e \<and> (\<forall>x\<in>set pre. \<not> P x) \<and> find P xs = Some e"
proof (induction xs)
  case Nil
  then show ?case by simp
next
  case (Cons a xs)
  show ?case
  proof (cases "P a")
    case True
    then have "a # xs = [] @ a # xs \<and> P a \<and> (\<forall>x\<in>set []. \<not> P x) \<and> find P (a # xs) = Some a"
      by simp
    then show ?thesis by blast
  next
    case False
    with Cons.prems have "\<exists>e\<in>set xs. P e" by simp
    from Cons.IH [OF this] obtain pre e post where
      "xs = pre @ e # post" "P e" "\<forall>x\<in>set pre. \<not> P x" "find P xs = Some e"
      by blast
    with False have "a # xs = (a # pre) @ e # post \<and> P e \<and> (\<forall>x\<in>set (a # pre). \<not> P x) \<and>
        find P (a # xs) = Some e"
      by simp
    then show ?thesis by blast
  qed
qed

lemma entryLookup_find:
  "entryLookup key entries
     (\<lambda>name. if name = [] then (case first entries of Inl e \<Rightarrow> Inl e | Inr x \<Rightarrow> Inr (Some x))
              else Inr (find (\<lambda>x. key x = name) entries))"
  unfolding entryLookup_def
proof (intro conjI allI impI)
  assume "entries \<noteq> []"
  then show "(if [] = [] then (case first entries of Inl e \<Rightarrow> Inl e | Inr x \<Rightarrow> Inr (Some x))
              else Inr (find (\<lambda>x. key x = []) entries)) = Inr (Some (hd entries))"
    by (cases entries) (simp_all add: first_def)
next
  fix name :: string
  assume "name \<noteq> [] \<and> (\<forall>e\<in>set entries. key e \<noteq> name)"
  then show "(if name = [] then (case first entries of Inl e \<Rightarrow> Inl e | Inr x \<Rightarrow> Inr (Some x))
              else Inr (find (\<lambda>x. key x = name) entries)) = Inr None"
    by (simp add: find_no_match)
next
  fix name :: string
  assume a: "name \<noteq> [] \<and> (\<exists>e\<in>set entries. key e = name)"
  then have "\<exists>pre e post. entries = pre @ e # post \<and> key e = name \<and>
      (\<forall>x\<in>set pre. key x \<noteq> name) \<and> find (\<lambda>x. key x = name) entries = Some e"
    using find_first_match [of entries "\<lambda>x. key x = name"] by simp
  with a show "\<exists>pre e post. entries = pre @ e # post \<and> key e = name \<and>
      (\<forall>x\<in>set pre. key x \<noteq> name) \<and>
      (if name = [] then (case first entries of Inl e \<Rightarrow> Inl e | Inr x \<Rightarrow> Inr (Some x))
       else Inr (find (\<lambda>x. key x = name) entries)) = Inr (Some e)"
    by simp
qed

lemma stringLookup_find:
  "stringLookup key attr entries
     (\<lambda>name. if name \<noteq> [] then
                (if special name then Inr other
                 else (case find (\<lambda>x. key x = name) entries of
                         Some x \<Rightarrow> Inr (attr x) | None \<Rightarrow> Inr emptyString))
              else Inr emptyString) special"
  unfolding stringLookup_def
proof (intro conjI allI impI)
  show "(if [] \<noteq> [] then
                (if special [] then Inr other
                 else (case find (\<lambda>x. key x = []) entries of
                         Some x \<Rightarrow> Inr (attr x) | None \<Rightarrow> Inr emptyString))
              else Inr emptyString) = Inr []"
    by (simp add: emptyString_def)
next
  fix name :: string
  assume "name \<noteq> [] \<and> \<not> special name \<and> (\<forall>e\<in>set entries. key e \<noteq> name)"
  then show "(if name \<noteq> [] then
                (if special name then Inr other
                 else (case find (\<lambda>x. key x = name) entries of
                         Some x \<Rightarrow> Inr (attr x) | None \<Rightarrow> Inr emptyString))
              else Inr emptyString) = Inr []"
    by (simp add: find_no_match emptyString_def)
next
  fix name :: string
  assume a: "name \<noteq> [] \<and> \<not> special name \<and> (\<exists>e\<in>set entries. key e = name)"
  then have "\<exists>pre e post. entries = pre @ e # post \<and> key e = name \<and>
      (\<forall>x\<in>set pre. key x \<noteq> name) \<and> find (\<lambda>x. key x = name) entries = Some e"
    using find_first_match [of entries "\<lambda>x. key x = name"] by simp
  then obtain pre e post where "entries = pre @ e # post" "key e = name"
      "\<forall>x\<in>set pre. key x \<noteq> name" "find (\<lambda>x. key x = name) entries = Some e"
    by blast
  with a have "entries = pre @ e # post \<and> key e = name \<and> (\<forall>x\<in>set pre. key x \<noteq> name) \<and>
      (if name \<noteq> [] then
                (if special name then Inr other
                 else (case find (\<lambda>x. key x = name) entries of
                         Some x \<Rightarrow> Inr (attr x) | None \<Rightarrow> Inr emptyString))
              else Inr emptyString) = Inr (attr e)"
    by simp
  then show "\<exists>pre e post. entries = pre @ e # post \<and> key e = name \<and>
      (\<forall>x\<in>set pre. key x \<noteq> name) \<and>
      (if name \<noteq> [] then
                (if special name then Inr other
                 else (case find (\<lambda>x. key x = name) entries of
                         Some x \<Rightarrow> Inr (attr x) | None \<Rightarrow> Inr emptyString))
              else Inr emptyString) = Inr (attr e)"
    by blast
qed

lemma lookupPaperIdFromName_eq:
  "lookupPaperIdFromName db =
     (\<lambda>name. if name \<noteq> [] then
                (if (\<lambda>_. False) name then Inr []
                 else (case find (\<lambda>x. paperName x = name) (mPapers db) of
                         Some x \<Rightarrow> Inr (paperId x) | None \<Rightarrow> Inr emptyString))
              else Inr emptyString)"
  by (rule ext) (simp add: lookupPaperIdFromName_def lookupPaperFromName_def split: option.splits)

lemma lookupPaperNameFromId_eq:
  "lookupPaperNameFromId db =
     (\<lambda>name. if name \<noteq> [] then
                (if isPaperIdOther name then Inr (mPaperNameOther db)
                 else (case find (\<lambda>x. paperId x = name) (mPapers db) of
                         Some x \<Rightarrow> Inr (paperName x) | None \<Rightarrow> Inr emptyString))
              else Inr emptyString)"
  by (rule ext) (simp add: lookupPaperNameFromId_def lookupPaperFromId_def split: option.splits)

lemma lookupCategoryIdFromName_eq:
  "lookupCategoryIdFromName db =
     (\<lambda>name. if name \<noteq> [] then
                (if (\<lambda>_. False) name then Inr []
                 else (case find (\<lambda>x. categoryName x = name) (mCategories db) of
                         Some x \<Rightarrow> Inr (categoryId x) | None \<Rightarrow> Inr emptyString))
              else Inr emptyString)"
  by (rule ext) (simp add: lookupCategoryIdFromName_def lookupCategoryFromName_def split: option.splits)

lemma lookupCategoryNameFromId_eq:
  "lookupCategoryNameFromId db =
     (\<lambda>name. if name \<noteq> [] then
                (if (\<lambda>_. False) name then Inr []
                 else (case find (\<lambda>x. categoryId x = name) (mCategories db) of
                         Some x \<Rightarrow> Inr (categoryName x) | None \<Rightarrow> Inr emptyString))
              else Inr emptyString)"
  by (rule ext) (simp add: lookupCategoryNameFromId_def lookupCategoryFromId_def split: option.splits)

lemma lookupVendorUrlFromName_eq:
  "lookupVendorUrlFromName db =
     (\<lambda>name. if name \<noteq> [] then
                (if (\<lambda>_. False) name then Inr []
                 else (case find (\<lambda>x. vendorName x = name) (mVendors db) of
                         Some x \<Rightarrow> Inr (vendorUrl x) | None \<Rightarrow> Inr emptyString))
              else Inr emptyString)"
  by (rule ext) (simp add: lookupVendorUrlFromName_def lookupVendorFromName_def split: option.splits)

text \<open>
  QList::first() needs a non-empty list: on an empty registry a lookup with an empty
  identifier has no entry to fall back to.
\<close>

lemma lookup_empty_registry:
  "mPapers db = [] \<Longrightarrow> lookupPaperFromName db [] = Inl EmptyList"
  "mPapers db = [] \<Longrightarrow> lookupPaperFromId db [] = Inl EmptyList"
  "mCategories db = [] \<Longrightarrow> lookupCategoryFromName db [] = Inl EmptyList"
  "mCategories db = [] \<Longrightarrow> lookupCategoryFromId db [] = Inl EmptyList"
  "mVendors db = [] \<Longrightarrow> lookupVendorFromName db [] = Inl EmptyList"
  "mTemplates db = [] \<Longrightarrow> lookupTemplateFromName db [] = Inl EmptyList"
  by (simp_all add: lookupPaperFromName_def lookupPaperFromId_def lookupCategoryFromName_def
      lookupCategoryFromId_def lookupVendorFromName_def lookupTemplateFromName_def first_def)

section \<open>Properties\<close>

text \<open>
  Claim C1. The claim asks that alignSelectionLeft line the selected objects up at the
  minimum x1 of their extents. As written the function ends in its call to
  getSelection, which returns nothing. Run on the list of selected objects, its body
  starts the search for the left-most edge from 7200; when every selected left edge
  lies beyond 7200 it moves the objects to 7200, the left edge of none of them: with
  left edges at 8000 and 9000 the minimum is 8000 and both objects end at 7200. Every
  value of this run is an integer, so no double operation rounds.
\<close>

theorem alignSelectionLeft_beyond_7200:
  "alignSelectionLeft far_model = Inl NoReturnValue \<and>
   \<not> (isSelectionEmpty far_model \<or> isSelectionAtomic far_model) \<and>
   builtSelection far_model = [0, 1] \<and>
   x1 (getExtent (objects far_model 0)) = 8000 \<and>
   x1 (getExtent (objects far_model 1)) = 9000 \<and>
   Min ((\<lambda>q. x1 (getExtent (objects far_model q))) ` set (builtSelection far_model)) = 8000 \<and>
   x1 (getExtent (objects (alignSelectionLeft_with [0, 1] far_model) 0)) = 7200 \<and>
   x1 (getExtent (objects (alignSelectionLeft_with [0, 1] far_model) 1)) = 7200"
  by (simp add: alignSelectionLeft_as_written far_model_def isSelectionEmpty_iff
      isSelectionAtomic_iff builtSelection_filter isSelected_def box_def
      alignSelectionLeft_with_def emit_def Let_def getExtent_def setPositionRelative_def
      double_exact)

text \<open>
  Claim C2. On an object list without duplicates, the body of raiseSelectionToTop leaves
  the unselected objects in place and appends the selected ones in their original
  order; the body of lowerSelectionToBottom puts the selected objects in front of the
  unselected ones in reverse order, since it pushes them to the front one after the
  other. The claim asks both operations to keep the relative order of the selected
  objects; lowerSelectionToBottom inverts it.
\<close>

theorem reorder_selection_lists:
  assumes "distinct (mObjectList m)"
  shows "mObjectList (raiseSelectionToTop_with (builtSelection m) m) =
           filter (\<lambda>p. \<not> isSelected (objects m p)) (mObjectList m) @
           filter (\<lambda>p. isSelected (objects m p)) (mObjectList m) \<and>
         mObjectList (lowerSelectionToBottom_with (builtSelection m) m) =
           rev (filter (\<lambda>p. isSelected (objects m p)) (mObjectList m)) @
           filter (\<lambda>p. \<not> isSelected (objects m p)) (mObjectList m)"
proof -
  have r: "removeOne_loop (builtSelection m) (mObjectList m) =
      filter (\<lambda>p. \<not> isSelected (objects m p)) (mObjectList m)"
    unfolding builtSelection_filter
    using assms by (simp only: removeOne_loop_distinct filter_not_in_filter)
  have s: "builtSelection m = filter (\<lambda>p. isSelected (objects m p)) (mObjectList m)"
    by (rule builtSelection_filter)
  show ?thesis
    by (simp add: raiseSelectionToTop_with_def lowerSelectionToBottom_with_def emit_def
        mObjectList_push_back_loop mObjectList_push_front_loop r)
       (simp add: s)
qed

text \<open>
  With the objects 0, 1, 2 stacked in that order and 0 and 1 selected, raising gives
  2, 0, 1 and lowering gives 1, 0, 2: object 1 was above object 0 and is below it after
  lowerSelectionToBottom.
\<close>

theorem reorder_selection_lists_witness:
  "distinct (mObjectList stack_model) \<and>
   mObjectList stack_model = [0, 1, 2] \<and>
   builtSelection stack_model = [0, 1] \<and>
   mObjectList (raiseSelectionToTop_with (builtSelection stack_model) stack_model) = [2, 0, 1] \<and>
   mObjectList (lowerSelectionToBottom_with (builtSelection stack_model) stack_model) = [1, 0, 2]"
  using reorder_selection_lists [of stack_model]
  by (simp add: stack_model_def builtSelection_filter isSelected_def box_def)

text \<open>
  Claim C3. With the region normalised by reordering its corners, selectRegion selects
  every object of the model whose extent lies within the region on all four edges (the
  comparisons are inclusive), and it leaves every object whose extent is not contained
  as it was: an object whose extent only overlaps the region is not selected by the
  call. For an extent with x1 \<le> x2 and y1 \<le> y2 this containment is inclusion of the
  covered points (lemma containedIn_points).
\<close>

theorem selectRegion_contained:
  "(p \<in> set (mObjectList m) \<and> containedIn (getExtent (objects m p)) (normalized region)
      \<longrightarrow> isSelected (objects (selectRegion region m) p)) \<and>
   (\<not> containedIn (getExtent (objects m p)) (normalized region)
      \<longrightarrow> objects (selectRegion region m) p = objects m p) \<and>
   (overlaps (getExtent (objects m p)) (normalized region) \<and>
    \<not> containedIn (getExtent (objects m p)) (normalized region) \<and>
    \<not> isSelected (objects m p)
      \<longrightarrow> \<not> isSelected (objects (selectRegion region m) p))"
  by (simp add: objects_selectRegion isSelected_def select_def)

text \<open>
  A region given with its corners swapped: the object inside it becomes selected, the
  object that overlaps it without lying inside stays unselected and unchanged.
\<close>

theorem selectRegion_contained_witness:
  "(1 \<in> set (mObjectList sample_model) \<and>
    containedIn (getExtent (objects sample_model 1)) (normalized sample_region) \<and>
    \<not> isSelected (objects sample_model 1) \<and>
    isSelected (objects (selectRegion sample_region sample_model) 1)) \<and>
   (overlaps (getExtent (objects sample_model 2)) (normalized sample_region) \<and>
    \<not> containedIn (getExtent (objects sample_model 2)) (normalized sample_region) \<and>
    \<not> isSelected (objects sample_model 2) \<and>
    \<not> isSelected (objects (selectRegion sample_region sample_model) 2) \<and>
    objects (selectRegion sample_region sample_model) 2 = objects sample_model 2)"
  using selectRegion_contained [of 1 sample_model sample_region]
        selectRegion_contained [of 2 sample_model sample_region]
  by (simp add: sample_model_def sample_region_def isSelected_def box_def containedIn_def
      overlaps_def normalized_def getExtent_def)

text \<open>
  Claim C4. The claim asks that getSelection return the selected objects in stacking
  order and that getFirstSelectedObject return an absent value when nothing is selected.
  In the source getSelection builds that list but never returns it, on any model state,
  and getFirstSelectedObject returns the first selected object when there is one and
  otherwise ends without a return statement.
\<close>

theorem accessors_missing_return:
  "getSelection m = Inl NoReturnValue \<and>
   getFirstSelectedObject m =
     (case builtSelection m of [] \<Rightarrow> Inl NoReturnValue | p # _ \<Rightarrow> Inr p)"
  by (simp add: getSelection_def getFirstSelectedObject_def builtSelection_filter
      getFirstSelectedObject_loop_filter)

text \<open>
  Claim C5. The claim asks that alignSelectionHCenter center the selected objects on the
  center of the selected object closest to the mean of the centers. As written the
  function ends in its call to getSelection, which returns nothing. Run on the list of
  selected objects, its body starts the search for the closest center from 7200 and
  replaces it only by a strictly closer center; with centers at 7100 and 7300 the mean is
  7200, no object is chosen, and both objects are centered on 7200, the center of
  neither. Every value of this run is an integer, so no double operation rounds.
\<close>

theorem alignSelectionHCenter_near_7200:
  "alignSelectionHCenter straddle_model = Inl NoReturnValue \<and>
   \<not> (isSelectionEmpty straddle_model \<or> isSelectionAtomic straddle_model) \<and>
   builtSelection straddle_model = [0, 1] \<and>
   getExtent (objects straddle_model 0) = \<lparr>x1 = 7090, y1 = 0, x2 = 7110, y2 = 10\<rparr> \<and>
   getExtent (objects straddle_model 1) = \<lparr>x1 = 7290, y1 = 0, x2 = 7310, y2 = 10\<rparr> \<and>
   getExtent (objects (alignSelectionHCenter_with [0, 1] straddle_model) 0) =
     \<lparr>x1 = 7190, y1 = 0, x2 = 7210, y2 = 10\<rparr> \<and>
   getExtent (objects (alignSelectionHCenter_with [0, 1] straddle_model) 1) =
     \<lparr>x1 = 7190, y1 = 0, x2 = 7210, y2 = 10\<rparr>"
  by (simp add: alignSelectionHCenter_as_written straddle_model_def isSelectionEmpty_iff
      isSelectionAtomic_iff builtSelection_filter isSelected_def box_def
      alignSelectionHCenter_with_def emit_def Let_def getExtent_def setPositionRelative_def
      double_exact)



text \<open>
  Claim C7. selectObject, unselectObject, selectAll and unselectAll change selected
  flags only: the object list, the modified flag, and the position and extent of every
  object are as before, and the one signal emitted is selection-changed (in particular
  never changed).
\<close>

theorem selection_ops_frame:
  "(let m' = selectObject object m in
      mObjectList m' = mObjectList m \<and> mModified m' = mModified m \<and>
      emitted m' = emitted m @ [SelectionChanged] \<and>
      (\<forall>p. mX0 (objects m' p) = mX0 (objects m p) \<and> mY0 (objects m' p) = mY0 (objects m p) \<and>
           mExtent (objects m' p) = mExtent (objects m p))) \<and>
   (let m' = unselectObject object m in
      mObjectList m' = mObjectList m \<and> mModified m' = mModified m \<and>
      emitted m' = emitted m @ [SelectionChanged] \<and>
      (\<forall>p. mX0 (objects m' p) = mX0 (objects m p) \<and> mY0 (objects m' p) = mY0 (objects m p) \<and>
           mExtent (objects m' p) = mExtent (objects m p))) \<and>
   (let m' = selectAll m in
      mObjectList m' = mObjectList m \<and> mModified m' = mModified m \<and>
      emitted m' = emitted m @ [SelectionChanged] \<and>
      (\<forall>p. mX0 (objects m' p) = mX0 (objects m p) \<and> mY0 (objects m' p) = mY0 (objects m p) \<and>
           mExtent (objects m' p) = mExtent (objects m p))) \<and>
   (let m' = unselectAll m in
      mObjectList m' = mObjectList m \<and> mModified m' = mModified m \<and>
      emitted m' = emitted m @ [SelectionChanged] \<and>
      (\<forall>p. mX0 (objects m' p) = mX0 (objects m p) \<and> mY0 (objects m' p) = mY0 (objects m p) \<and>
           mExtent (objects m' p) = mExtent (objects m p)))"
  by (simp add: selectObject_def unselectObject_def selectAll_def unselectAll_def emit_def
      selectAll_loop_apply unselectAll_loop_apply select_def unselect_def)




text \<open>
  Claim C9 (as amended). The lookups that return an entry (a paper by name or id, a
  category by name or id, a vendor by name, a template by name) yield the first entry of
  the registry's list for a null or empty identifier when the list has an entry, NULL
  for a non-empty identifier that matches no entry, and otherwise the first entry of the
  list that matches. The lookups that return a string (paper id from name, paper name
  from id, category id from name, category name from id, vendor URL from name) yield the
  empty string for a null or empty identifier and for a non-empty identifier that matches
  no entry, and otherwise the attribute of the first entry of the list that matches; the
  paper id Other is answered with the name kept for other papers, whatever is
  registered.
\<close>

theorem registry_lookups:
  "entryLookup paperName (mPapers db) (lookupPaperFromName db) \<and>
   entryLookup paperId (mPapers db) (lookupPaperFromId db) \<and>
   entryLookup categoryName (mCategories db) (lookupCategoryFromName db) \<and>
   entryLookup categoryId (mCategories db) (lookupCategoryFromId db) \<and>
   entryLookup vendorName (mVendors db) (lookupVendorFromName db) \<and>
   entryLookup templateName (mTemplates db) (lookupTemplateFromName db) \<and>
   stringLookup paperName paperId (mPapers db) (lookupPaperIdFromName db) (\<lambda>_. False) \<and>
   stringLookup paperId paperName (mPapers db) (lookupPaperNameFromId db) isPaperIdOther \<and>
   lookupPaperNameFromId db ''Other'' = Inr (mPaperNameOther db) \<and>
   stringLookup categoryName categoryId (mCategories db) (lookupCategoryIdFromName db) (\<lambda>_. False) \<and>
   stringLookup categoryId categoryName (mCategories db) (lookupCategoryNameFromId db) (\<lambda>_. False) \<and>
   stringLookup vendorName vendorUrl (mVendors db) (lookupVendorUrlFromName db) (\<lambda>_. False)"
proof (intro conjI)
  show "entryLookup paperName (mPapers db) (lookupPaperFromName db)"
    using entryLookup_find [of paperName "mPapers db"]
    by (simp add: lookupPaperFromName_def [abs_def])
  show "entryLookup paperId (mPapers db) (lookupPaperFromId db)"
    using entryLookup_find [of paperId "mPapers db"]
    by (simp add: lookupPaperFromId_def [abs_def])
  show "entryLookup categoryName (mCategories db) (lookupCategoryFromName db)"
    using entryLookup_find [of categoryName "mCategories db"]
    by (simp add: lookupCategoryFromName_def [abs_def])
  show "entryLookup categoryId (mCategories db) (lookupCategoryFromId db)"
    using entryLookup_find [of categoryId "mCategories db"]
    by (simp add: lookupCategoryFromId_def [abs_def])
  show "entryLookup vendorName (mVendors db) (lookupVendorFromName db)"
    using entryLookup_find [of vendorName "mVendors db"]
    by (simp add: lookupVendorFromName_def [abs_def])
  show "entryLookup templateName (mTemplates db) (lookupTemplateFromName db)"
    using entryLookup_find [of templateName "mTemplates db"]
    by (simp add: lookupTemplateFromName_def [abs_def])
  show "stringLookup paperName paperId (mPapers db) (lookupPaperIdFromName db) (\<lambda>_. False)"
    unfolding lookupPaperIdFromName_eq by (rule stringLookup_find)
  show "stringLookup paperId paperName (mPapers db) (lookupPaperNameFromId db) isPaperIdOther"
    unfolding lookupPaperNameFromId_eq by (rule stringLookup_find)
  show "lookupPaperNameFromId db ''Other'' = Inr (mPaperNameOther db)"
    by (simp add: lookupPaperNameFromId_def isPaperIdOther_def)
  show "stringLookup categoryName categoryId (mCategories db) (lookupCategoryIdFromName db) (\<lambda>_. False)"
    unfolding lookupCategoryIdFromName_eq by (rule stringLookup_find)
  show "stringLookup categoryId categoryName (mCategories db) (lookupCategoryNameFromId db) (\<lambda>_. False)"
    unfolding lookupCategoryNameFromId_eq by (rule stringLookup_find)
  show "stringLookup vendorName vendorUrl (mVendors db) (lookupVendorUrlFromName db) (\<lambda>_. False)"
    unfolding lookupVendorUrlFromName_eq by (rule stringLookup_find)
qed

text \<open>
  The lookups on a small registry; of the two papers named Custom the first one is
  found.
\<close>

theorem registry_lookups_witness:
  "lookupPaperFromName example_db [] = Inr (Some \<lparr>paperId = ''A4'', paperName = ''A4 paper''\<rparr>) \<and>
   lookupPaperFromName example_db ''US Letter'' =
     Inr (Some \<lparr>paperId = ''US-Letter'', paperName = ''US Letter''\<rparr>) \<and>
   lookupPaperFromName example_db ''B5'' = Inr None \<and>
   lookupPaperFromName example_db ''Custom'' =
     Inr (Some \<lparr>paperId = ''c1'', paperName = ''Custom''\<rparr>) \<and>
   lookupPaperIdFromName example_db ''Custom'' = Inr ''c1'' \<and>
   lookupPaperFromId example_db ''US-Letter'' =
     Inr (Some \<lparr>paperId = ''US-Letter'', paperName = ''US Letter''\<rparr>) \<and>
   lookupTemplateFromName example_db [] =
     Inr (Some \<lparr>templateBrand = ''Avery'', templatePart = ''5160'', templateName = ''Avery 5160''\<rparr>) \<and>
   lookupTemplateFromName example_db ''Avery 5161'' = Inr None \<and>
   lookupPaperIdFromName example_db ''A4 paper'' = Inr ''A4'' \<and>
   lookupPaperIdFromName example_db ''B5'' = Inr [] \<and>
   lookupPaperIdFromName example_db [] = Inr [] \<and>
   lookupVendorUrlFromName example_db ''Avery'' = Inr ''http://www.avery.com'' \<and>
   lookupPaperNameFromId example_db ''Other'' = Inr ''Other''"
  using registry_lookups [of example_db]
  by (simp add: example_db_def lookupPaperFromName_def lookupPaperFromId_def
      lookupTemplateFromName_def lookupPaperIdFromName_def lookupVendorUrlFromName_def
      lookupVendorFromName_def lookupPaperNameFromId_def isPaperIdOther_def first_def
      emptyString_def)

text \<open>
  Claim C9 as stated fails for the lookups that return a string: with an empty name,
  lookupPaperIdFromName yields the empty string and not the id of the first registered
  paper; and the id "Other", which matches no registered paper, yields a non-empty name.
\<close>

theorem empty_name_string_lookup:
  "mPapers example_db \<noteq> [] \<and>
   paperId (hd (mPapers example_db)) = ''A4'' \<and>
   lookupPaperIdFromName example_db [] = Inr [] \<and>
   lookupPaperIdFromName example_db [] \<noteq> Inr (paperId (hd (mPapers example_db))) \<and>
   ''Other'' \<notin> set (map paperId (mPapers example_db)) \<and>
   lookupPaperNameFromId example_db ''Other'' = Inr ''Other''"
  by (simp add: example_db_def lookupPaperIdFromName_def lookupPaperNameFromId_def
      isPaperIdOther_def emptyString_def)

text \<open>
  Claim C10. selectRegion only adds to the selection: an object that was selected
  before the call is selected after it, for every region and every model state, so the
  selection after the call contains the selection before it.
\<close>

theorem selectRegion_monotone:
  "(isSelected (objects m p) \<longrightarrow> isSelected (objects (selectRegion region m) p)) \<and>
   set (builtSelection m) \<subseteq> set (builtSelection (selectRegion region m))"
proof -
  have a: "mObjectList (selectRegion region m) = mObjectList m"
    by (simp add: selectRegion_def emit_def)
  have b: "\<And>q. isSelected (objects m q) \<Longrightarrow> isSelected (objects (selectRegion region m) q)"
    by (simp add: objects_selectRegion isSelected_def select_def)
  show ?thesis using a b by (auto simp: builtSelection_filter)
qed

text \<open>
  An object selected before the call and lying outside the region is still selected.
\<close>

theorem selectRegion_monotone_witness:
  "isSelected (objects sample_model 0) \<and>
   isSelected (objects (selectRegion sample_region sample_model) 0) \<and>
   set (builtSelection sample_model) \<subseteq> set (builtSelection (selectRegion sample_region sample_model))"
  using selectRegion_monotone [of sample_model 0 sample_region]
  by (simp add: sample_model_def isSelected_def box_def)

end
